theory Spec2Isabelle
  imports Complex_Main "HOL-Library.AList" "HOL-Library.Log_Nat" "HOL-Library.Word"
begin

section \<open>JavaScript values\<close>

text \<open>
  Request parameters, request bodies, responses and thrown errors are untyped JavaScript
  values at run time. Objects are association lists (property order matters to the query
  string). \<open>JNum\<close> covers the integral numbers; a property whose value is
  \<open>undefined\<close> is an entry with value \<open>JUndefined\<close>.
\<close>

datatype jsval =
    JUndefined
  | JNull
  | JBool bool
  | JNum int
  | JStr string
  | JObj "(string \<times> jsval) list"

text \<open>What \<open>v ? a : b\<close>, \<open>!v\<close> and \<open>v || w\<close> test.\<close>

fun truthy :: "jsval \<Rightarrow> bool" where
  "truthy JUndefined = False"
| "truthy JNull = False"
| "truthy (JBool b) = b"
| "truthy (JNum n) = (n \<noteq> 0)"
| "truthy (JStr s) = (s \<noteq> [])"
| "truthy (JObj kvs) = True"

datatype exn = TypeError

text \<open>
  The property read \<open>v.k\<close>, for the property names the client reads (\<open>response\<close>,
  \<open>data\<close>, \<open>error\<close>): reading from \<open>undefined\<close> or \<open>null\<close> throws a TypeError, a
  missing property and any such property of a primitive is \<open>undefined\<close>.
\<close>

fun get_prop :: "jsval \<Rightarrow> string \<Rightarrow> exn + jsval" where
  "get_prop JUndefined k = Inl TypeError"
| "get_prop JNull k = Inl TypeError"
| "get_prop (JObj kvs) k = (case map_of kvs k of None \<Rightarrow> Inr JUndefined | Some v \<Rightarrow> Inr v)"
| "get_prop v k = Inr JUndefined"

fun and_then :: "exn + 'a \<Rightarrow> ('a \<Rightarrow> exn + 'b) \<Rightarrow> exn + 'b" where
  "and_then (Inl e) f = Inl e"
| "and_then (Inr v) f = f v"

text \<open>
  The expression of every \<open>catch\<close> block,
  \<^verbatim>\<open>err.response.data.error || err.response.data || err.response || err\<close>,
  evaluated left to right; a disjunct is only evaluated when the ones before it are falsy.
\<close>

definition rejectionReason :: "jsval \<Rightarrow> exn + jsval" where
  "rejectionReason err =
     and_then (and_then (and_then (get_prop err ''response'') (\<lambda>r. get_prop r ''data''))
                 (\<lambda>d. get_prop d ''error''))
       (\<lambda>e. if truthy e then Inr e
             else and_then (and_then (get_prop err ''response'') (\<lambda>r. get_prop r ''data''))
               (\<lambda>d. if truthy d then Inr d
                     else and_then (get_prop err ''response'')
                       (\<lambda>r. if truthy r then Inr r else Inr err)))"

section \<open>Request configuration\<close>

text \<open>
  An \<open>AxiosRequestConfig\<close>, restricted to the properties the client sets; \<open>None\<close> is an
  absent property. The same type serves for the caller's \<open>IHitBtcRequestConfig\<close>.
\<close>

record AxiosBasicCredentials =
  username :: string
  password :: string

record AxiosRequestConfig =
  baseURL :: "string option"
  headers :: "(string \<times> string) list option"
  "method" :: "string option"
  timeout :: "nat option"
  url :: "string option"
  auth :: "AxiosBasicCredentials option"
  data :: "jsval option"

text \<open>Object spread of one object literal into another: \<open>{...a, ...b}\<close>.\<close>

definition spread_obj :: "('k \<times> 'v) list \<Rightarrow> ('k \<times> 'v) list \<Rightarrow> ('k \<times> 'v) list" where
  "spread_obj a b = foldl (\<lambda>acc kv. AList.update (fst kv) (snd kv) acc) a b"

definition or_else :: "'a option \<Rightarrow> 'a option \<Rightarrow> 'a option" where
  "or_else b a = (case b of None \<Rightarrow> a | Some v \<Rightarrow> Some v)"

text \<open>\<open>{...a, ...config}\<close> where \<open>config\<close> may be \<open>null\<close> (spreading \<open>null\<close> adds nothing).\<close>

definition spread :: "AxiosRequestConfig \<Rightarrow> AxiosRequestConfig option \<Rightarrow> AxiosRequestConfig" where
  "spread a config =
     (case config of
        None \<Rightarrow> a
      | Some b \<Rightarrow>
          \<lparr> baseURL = or_else (baseURL b) (baseURL a),
            headers = or_else (headers b) (headers a),
            method = or_else (method b) (method a),
            timeout = or_else (timeout b) (timeout a),
            url = or_else (url b) (url a),
            auth = or_else (auth b) (auth a),
            data = or_else (data b) (data a) \<rparr>)"

definition rootUrl :: string where
  "rootUrl = ''https://api.hitbtc.com/api/2''"

definition defaultHeaders :: "(string \<times> string) list" where
  "defaultHeaders =
     [(''Content-Type'', ''application/json''),
      (''User-Agent'', ''HitBTC API Client (hitbtc-cryptoexchange-api node package)'')]"

definition defaultAgentConfig :: AxiosRequestConfig where
  "defaultAgentConfig =
     \<lparr> baseURL = Some rootUrl, headers = Some defaultHeaders, method = Some ''GET'',
       timeout = Some 3000, url = None, auth = None, data = None \<rparr>"

definition publicAgentConfig :: AxiosRequestConfig where
  "publicAgentConfig = defaultAgentConfig"

definition privateAgentConfig :: AxiosRequestConfig where
  "privateAgentConfig = defaultAgentConfig \<lparr> method := Some ''POST'' \<rparr>"

section \<open>The outside world\<close>

text \<open>
  The two libraries the agent calls: \<open>qs.stringify\<close> and the HTTP transport \<open>axios\<close>,
  which either returns a response (\<open>Inr\<close>) or throws (\<open>Inl\<close>).
\<close>

record env =
  qs_stringify :: "jsval \<Rightarrow> string"
  axios :: "AxiosRequestConfig \<Rightarrow> jsval + jsval"

text \<open>
  How a call settles. A TypeError thrown inside an \<open>async\<close> function rejects its promise
  with that TypeError.
\<close>

datatype outcome = Resolved jsval | Rejected jsval | RejectedTypeError

text \<open>A call returns how it settled and the requests it handed to the transport, in order.\<close>

type_synonym result = "outcome \<times> AxiosRequestConfig list"

text \<open>The \<open>try { await axios(agentConfig) } catch (err) { ... }\<close> that ends every request.\<close>

definition send :: "env \<Rightarrow> AxiosRequestConfig \<Rightarrow> result" where
  "send e agentConfig =
     (case axios e agentConfig of
        Inr response \<Rightarrow> (Resolved response, [agentConfig])
      | Inl err \<Rightarrow>
          (case rejectionReason err of
             Inr reason \<Rightarrow> (Rejected reason, [agentConfig])
           | Inl TypeError \<Rightarrow> (RejectedTypeError, [agentConfig])))"

section \<open>Credentials and the raw agent\<close>

text \<open>
  \<open>IApiAuth\<close> of the Basic Auth module, and of the HMAC module, which adds a passphrase.
\<close>

record IApiAuth =
  publicKey :: string
  privateKey :: string

record IApiAuthHmac = IApiAuth +
  passphrase :: string

text \<open>
  \<open>getRawAgent(auth)\<close> returns an object literal with a property \<open>auth\<close>, initialised
  from the parameter, and methods that close over the parameter. Both are state of the
  agent: \<open>auth_prop\<close> is \<open>this.auth\<close>, \<open>auth_arg\<close> is the variable \<open>auth\<close> that a method
  body reads when it writes \<open>auth\<close> without \<open>this\<close>. \<open>None\<close> is \<open>undefined\<close>.
\<close>

record 'a IRawAgent =
  auth_arg :: "'a option"
  auth_prop :: "'a option"

definition getRawAgent :: "'a option \<Rightarrow> 'a IRawAgent" where
  "getRawAgent auth' = \<lparr> auth_arg = auth', auth_prop = auth' \<rparr>"

text \<open>\<open>isUpgraded() { return this.auth; }\<close>: the credential object itself, or \<open>undefined\<close>.\<close>

definition isUpgraded :: "'a IRawAgent \<Rightarrow> 'a option" where
  "isUpgraded agent = auth_prop agent"

text \<open>An object is true in a condition, \<open>undefined\<close> is false.\<close>

fun present :: "'a option \<Rightarrow> bool" where
  "present None = False"
| "present (Some v) = True"

text \<open>\<open>upgrade(newAuth) { this.auth = newAuth; }\<close>\<close>

definition upgrade :: "'a \<Rightarrow> 'a IRawAgent \<Rightarrow> 'a IRawAgent" where
  "upgrade newAuth agent = agent \<lparr> auth_prop := Some newAuth \<rparr>"

definition keys_required :: jsval where
  "keys_required = JStr ''api keys are required to access private endpoints''"

text \<open>Spreading \<open>null\<close> or \<open>undefined\<close> into an object literal adds nothing.\<close>

fun props :: "('k \<times> 'v) list option \<Rightarrow> ('k \<times> 'v) list" where
  "props None = []"
| "props (Some kvs) = kvs"

text \<open>\<open>config ? config.headers : null\<close>\<close>

fun headersOverride :: "AxiosRequestConfig option \<Rightarrow> (string \<times> string) list option" where
  "headersOverride None = None"
| "headersOverride (Some config) = headers config"

subsection \<open>Basic Auth module\<close>

definition publicRequest :: "env \<Rightarrow> string \<Rightarrow> jsval \<Rightarrow> AxiosRequestConfig option \<Rightarrow> result" where
  "publicRequest e endpoint queryParams config =
     (let uri = ''/'' @ endpoint @ ''?'' @ qs_stringify e queryParams;
          agentConfig = spread (publicAgentConfig \<lparr> url := Some uri \<rparr>) config
      in send e agentConfig)"

definition privateRequest ::
  "env \<Rightarrow> IApiAuth IRawAgent \<Rightarrow> string \<Rightarrow> string \<Rightarrow> jsval \<Rightarrow> AxiosRequestConfig option \<Rightarrow> result" where
  "privateRequest e agent endpoint meth dataParams config =
     (if \<not> present (isUpgraded agent) then (Rejected keys_required, [])
      else
        let body = (if meth = ''GET'' then JNull else dataParams);
            uri = (if meth = ''GET'' then ''/'' @ endpoint @ ''/'' @ qs_stringify e dataParams
                   else ''/'' @ endpoint);
            hdrs = spread_obj (props (headers privateAgentConfig)) (props (headersOverride config))
        in case auth_arg agent of
             None \<Rightarrow> (RejectedTypeError, [])
           | Some a \<Rightarrow>
               let httpBasicAuth = \<lparr> username = publicKey a, password = privateKey a \<rparr>;
                   agentConfig =
                     spread (privateAgentConfig \<lparr> headers := Some hdrs, auth := Some httpBasicAuth,
                               url := Some uri, method := Some meth, data := Some body \<rparr>) config
               in send e agentConfig)"

subsection \<open>HMAC module\<close>

definition deleteFromPrivateEndpoint ::
  "env \<Rightarrow> 'a IRawAgent \<Rightarrow> string \<Rightarrow> jsval \<Rightarrow> AxiosRequestConfig option \<Rightarrow> result" where
  "deleteFromPrivateEndpoint e agent endpoint queryParams config =
     (if \<not> present (isUpgraded agent) then (Rejected keys_required, [])
      else
        let uri = ''/'' @ endpoint @ ''?'' @ qs_stringify e queryParams;
            hdrs = spread_obj (props (headers privateAgentConfig)) (props (headersOverride config));
            agentConfig =
              spread (privateAgentConfig \<lparr> headers := Some hdrs, method := Some ''DELETE'',
                        url := Some uri \<rparr>) config
        in send e agentConfig)"

definition getFromPrivateEndpoint ::
  "env \<Rightarrow> 'a IRawAgent \<Rightarrow> string \<Rightarrow> jsval \<Rightarrow> AxiosRequestConfig option \<Rightarrow> result" where
  "getFromPrivateEndpoint e agent endpoint queryParams config =
     (if \<not> present (isUpgraded agent) then (Rejected keys_required, [])
      else
        let uri = ''/'' @ endpoint @ ''?'' @ qs_stringify e queryParams;
            hdrs = spread_obj (props (headers privateAgentConfig)) (props (headersOverride config));
            agentConfig =
              spread (privateAgentConfig \<lparr> headers := Some hdrs, method := Some ''GET'',
                        url := Some uri \<rparr>) config
        in send e agentConfig)"

definition getPublicEndpoint :: "env \<Rightarrow> string \<Rightarrow> jsval \<Rightarrow> AxiosRequestConfig option \<Rightarrow> result" where
  "getPublicEndpoint e endpoint queryParams config =
     (let uri = ''/'' @ endpoint @ ''?'' @ qs_stringify e queryParams;
          agentConfig = spread (publicAgentConfig \<lparr> url := Some uri \<rparr>) config
      in send e agentConfig)"

definition patchToPrivateEndpoint ::
  "env \<Rightarrow> 'a IRawAgent \<Rightarrow> string \<Rightarrow> jsval \<Rightarrow> AxiosRequestConfig option \<Rightarrow> result" where
  "patchToPrivateEndpoint e agent endpoint body config =
     (if \<not> present (isUpgraded agent) then (Rejected keys_required, [])
      else
        let uri = ''/'' @ endpoint;
            hdrs = spread_obj (props (headers privateAgentConfig)) (props (headersOverride config));
            agentConfig =
              spread (privateAgentConfig \<lparr> headers := Some hdrs, url := Some uri,
                        method := Some ''PATCH'', data := Some body \<rparr>) config
        in send e agentConfig)"

definition postToPrivateEndpoint ::
  "env \<Rightarrow> 'a IRawAgent \<Rightarrow> string \<Rightarrow> jsval \<Rightarrow> AxiosRequestConfig option \<Rightarrow> result" where
  "postToPrivateEndpoint e agent endpoint body config =
     (if \<not> present (isUpgraded agent) then (Rejected keys_required, [])
      else
        let uri = ''/'' @ endpoint;
            hdrs = spread_obj (props (headers privateAgentConfig)) (props (headersOverride config));
            agentConfig =
              spread (privateAgentConfig \<lparr> headers := Some hdrs, url := Some uri,
                        method := Some ''POST'', data := Some body \<rparr>) config
        in send e agentConfig)"

definition putToPrivateEndpoint ::
  "env \<Rightarrow> 'a IRawAgent \<Rightarrow> string \<Rightarrow> jsval \<Rightarrow> AxiosRequestConfig option \<Rightarrow> result" where
  "putToPrivateEndpoint e agent endpoint body config =
     (if \<not> present (isUpgraded agent) then (Rejected keys_required, [])
      else
        let uri = ''/'' @ endpoint;
            hdrs = spread_obj (props (headers privateAgentConfig)) (props (headersOverride config));
            agentConfig =
              spread (privateAgentConfig \<lparr> headers := Some hdrs, url := Some uri,
                        method := Some ''PUT'', data := Some body \<rparr>) config
        in send e agentConfig)"

section \<open>The client facade\<close>

text \<open>
  \<open>getClient(auth, configOverride)\<close> holds a raw agent and closes over the config override,
  which every method passes on. \<open>upgrade\<close> and \<open>isUpgraded\<close> delegate to the agent.
\<close>

record 'a IHitBtcClient =
  rawAgent :: "'a IRawAgent"
  configOverride :: "AxiosRequestConfig option"

definition getClient :: "'a option \<Rightarrow> AxiosRequestConfig option \<Rightarrow> 'a IHitBtcClient" where
  "getClient auth' config = \<lparr> rawAgent = getRawAgent auth', configOverride = config \<rparr>"

definition client_isUpgraded :: "'a IHitBtcClient \<Rightarrow> 'a option" where
  "client_isUpgraded c = isUpgraded (rawAgent c)"

definition client_upgrade :: "'a \<Rightarrow> 'a IHitBtcClient \<Rightarrow> 'a IHitBtcClient" where
  "client_upgrade newAuth c = c \<lparr> rawAgent := upgrade newAuth (rawAgent c) \<rparr>"

text \<open>A template literal prints a number in decimal.\<close>

definition digit_char :: "nat \<Rightarrow> char" where
  "digit_char d = char_of (48 + d)"

fun show_nat :: "nat \<Rightarrow> string" where
  "show_nat n = (if n < 10 then [digit_char n] else show_nat (n div 10) @ [digit_char (n mod 10)])"

declare show_nat.simps [simp del]

definition number_to_string :: "int \<Rightarrow> string" where
  "number_to_string i = (if i < 0 then ''-'' @ show_nat (nat (- i)) else show_nat (nat i))"

text \<open>
  The methods of the client, with their arguments. An optional argument that is left out
  is \<open>JUndefined\<close> (\<open>None\<close> for the optional string of \<open>listOpenOrders\<close>).
\<close>

datatype public_op =
    getAvailableCurrencySymbols
  | getSymbolInfo string
  | getAvailableCurrencies
  | getCurrencyInfo string
  | getTicker
  | getTickerInfo string
  | getTradesInfo string jsval
  | getOrderBook string jsval
  | getCandle string jsval

datatype private_op =
    listOpenOrders "string option"
  | createNewOrder jsval
  | cancelAllOrders jsval
  | getOrderByClientId string jsval
  | createNewClientIdOrder string jsval
  | cancelClientIdOrder string
  | replaceOrder string
  | getTradingBalances
  | getTradingFee string
  | getTrades jsval
  | getOrders jsval
  | getTradesByOrderId int
  | getMainAccountBalance
  | getAccountTransactions jsval
  | getAccountTransactionById string
  | withdrawCrypto jsval
  | commitCryptoWithdraw string
  | rollbackCryptoWithdraw string
  | getCryptoDepositAddress string
  | createCryptoDepositAddress string
  | transferToTrading jsval

text \<open>The object literal \<open>{ symbol: symbolId }\<close>.\<close>

fun symbol_param :: "string option \<Rightarrow> jsval" where
  "symbol_param None = JObj [(''symbol'', JUndefined)]"
| "symbol_param (Some symbolId) = JObj [(''symbol'', JStr symbolId)]"

subsection \<open>Basic Auth module\<close>

fun basic_public :: "env \<Rightarrow> IApiAuth IHitBtcClient \<Rightarrow> public_op \<Rightarrow> result" where
  "basic_public e c getAvailableCurrencySymbols =
     publicRequest e ''public/symbol'' JNull (configOverride c)"
| "basic_public e c (getSymbolInfo symbolId) =
     publicRequest e (''public/symbol/'' @ symbolId) JNull (configOverride c)"
| "basic_public e c getAvailableCurrencies =
     publicRequest e ''public/currency'' JNull (configOverride c)"
| "basic_public e c (getCurrencyInfo currencyId) =
     publicRequest e (''public/symbol/'' @ currencyId) JNull (configOverride c)"
| "basic_public e c getTicker =
     publicRequest e ''public/ticker'' JNull (configOverride c)"
| "basic_public e c (getTickerInfo symbolId) =
     publicRequest e (''public/ticker/'' @ symbolId) JNull (configOverride c)"
| "basic_public e c (getTradesInfo symbolId queryParams) =
     publicRequest e (''public/trades/'' @ symbolId) queryParams (configOverride c)"
| "basic_public e c (getOrderBook symbolId queryParams) =
     publicRequest e (''public/orderbook/'' @ symbolId) queryParams (configOverride c)"
| "basic_public e c (getCandle symbolId queryParams) =
     publicRequest e (''public/candles/'' @ symbolId) queryParams (configOverride c)"

fun basic_private :: "env \<Rightarrow> IApiAuth IHitBtcClient \<Rightarrow> private_op \<Rightarrow> result" where
  "basic_private e c (listOpenOrders symbolId) =
     privateRequest e (rawAgent c) ''order'' ''GET'' (symbol_param symbolId) (configOverride c)"
| "basic_private e c (createNewOrder params) =
     privateRequest e (rawAgent c) ''order'' ''POST'' params (configOverride c)"
| "basic_private e c (cancelAllOrders params) =
     privateRequest e (rawAgent c) ''order'' ''DELETE'' params (configOverride c)"
| "basic_private e c (getOrderByClientId clientOrderId params) =
     privateRequest e (rawAgent c) (''order/'' @ clientOrderId) ''POST'' params (configOverride c)"
| "basic_private e c (createNewClientIdOrder clientOrderId params) =
     privateRequest e (rawAgent c) (''order/'' @ clientOrderId) ''PUT'' params (configOverride c)"
| "basic_private e c (cancelClientIdOrder clientOrderId) =
     privateRequest e (rawAgent c) (''order/'' @ clientOrderId) ''DELETE'' JNull (configOverride c)"
| "basic_private e c (replaceOrder clientOrderId) =
     privateRequest e (rawAgent c) (''order/'' @ clientOrderId) ''PATCH'' JNull (configOverride c)"
| "basic_private e c getTradingBalances =
     privateRequest e (rawAgent c) ''trading/balance'' ''GET'' JNull (configOverride c)"
| "basic_private e c (getTradingFee symbolId) =
     privateRequest e (rawAgent c) (''trading/fee/'' @ symbolId) ''GET'' JNull (configOverride c)"
| "basic_private e c (getTrades params) =
     privateRequest e (rawAgent c) ''history/trades'' ''GET'' params (configOverride c)"
| "basic_private e c (getOrders params) =
     privateRequest e (rawAgent c) ''history/order'' ''GET'' params (configOverride c)"
| "basic_private e c (getTradesByOrderId orderId) =
     privateRequest e (rawAgent c) (''history/order/'' @ number_to_string orderId @ ''/trades'')
       ''GET'' JNull (configOverride c)"
| "basic_private e c getMainAccountBalance =
     privateRequest e (rawAgent c) ''account/balance'' ''GET'' JNull (configOverride c)"
| "basic_private e c (getAccountTransactions params) =
     privateRequest e (rawAgent c) ''account/transactions'' ''GET'' params (configOverride c)"
| "basic_private e c (getAccountTransactionById transactionId) =
     privateRequest e (rawAgent c) (''account/transaction/'' @ transactionId) ''GET'' JNull
       (configOverride c)"
| "basic_private e c (withdrawCrypto params) =
     privateRequest e (rawAgent c) ''account/crypto/withdraw'' ''POST'' params (configOverride c)"
| "basic_private e c (commitCryptoWithdraw ident) =
     privateRequest e (rawAgent c) (''account/crypto/withdraw/'' @ ident) ''PUT'' JNull
       (configOverride c)"
| "basic_private e c (rollbackCryptoWithdraw ident) =
     privateRequest e (rawAgent c) (''account/crypto/withdraw/'' @ ident) ''DELETE'' JNull
       (configOverride c)"
| "basic_private e c (getCryptoDepositAddress currencyId) =
     privateRequest e (rawAgent c) (''account/crypto/address/'' @ currencyId) ''GET'' JNull
       (configOverride c)"
| "basic_private e c (createCryptoDepositAddress currencyId) =
     privateRequest e (rawAgent c) (''account/crypto/address/'' @ currencyId) ''GET'' JNull
       (configOverride c)"
| "basic_private e c (transferToTrading params) =
     privateRequest e (rawAgent c) ''account/transfer'' ''POST'' params (configOverride c)"

subsection \<open>HMAC module\<close>

fun hmac_public :: "env \<Rightarrow> 'a IHitBtcClient \<Rightarrow> public_op \<Rightarrow> result" where
  "hmac_public e c getAvailableCurrencySymbols =
     getPublicEndpoint e ''public/symbol'' JNull (configOverride c)"
| "hmac_public e c (getSymbolInfo symbolId) =
     getPublicEndpoint e (''public/symbol/'' @ symbolId) JNull (configOverride c)"
| "hmac_public e c getAvailableCurrencies =
     getPublicEndpoint e ''public/currency'' JNull (configOverride c)"
| "hmac_public e c (getCurrencyInfo currencyId) =
     getPublicEndpoint e (''public/symbol/'' @ currencyId) JNull (configOverride c)"
| "hmac_public e c getTicker =
     getPublicEndpoint e ''public/ticker'' JNull (configOverride c)"
| "hmac_public e c (getTickerInfo symbolId) =
     getPublicEndpoint e (''public/ticker/'' @ symbolId) JNull (configOverride c)"
| "hmac_public e c (getTradesInfo symbolId queryParams) =
     getPublicEndpoint e (''public/trades/'' @ symbolId) queryParams (configOverride c)"
| "hmac_public e c (getOrderBook symbolId queryParams) =
     getPublicEndpoint e (''public/orderbook/'' @ symbolId) queryParams (configOverride c)"
| "hmac_public e c (getCandle symbolId queryParams) =
     getPublicEndpoint e (''public/candles/'' @ symbolId) queryParams (configOverride c)"

fun hmac_private :: "env \<Rightarrow> 'a IHitBtcClient \<Rightarrow> private_op \<Rightarrow> result" where
  "hmac_private e c (listOpenOrders symbolId) =
     getFromPrivateEndpoint e (rawAgent c) ''order'' (symbol_param symbolId) (configOverride c)"
| "hmac_private e c (createNewOrder params) =
     postToPrivateEndpoint e (rawAgent c) ''order'' params (configOverride c)"
| "hmac_private e c (cancelAllOrders params) =
     deleteFromPrivateEndpoint e (rawAgent c) ''order'' params (configOverride c)"
| "hmac_private e c (getOrderByClientId clientOrderId params) =
     postToPrivateEndpoint e (rawAgent c) (''order/'' @ clientOrderId) params (configOverride c)"
| "hmac_private e c (createNewClientIdOrder clientOrderId params) =
     putToPrivateEndpoint e (rawAgent c) (''order/'' @ clientOrderId) params (configOverride c)"
| "hmac_private e c (cancelClientIdOrder clientOrderId) =
     deleteFromPrivateEndpoint e (rawAgent c) (''order/'' @ clientOrderId) JNull (configOverride c)"
| "hmac_private e c (replaceOrder clientOrderId) =
     patchToPrivateEndpoint e (rawAgent c) (''order/'' @ clientOrderId) JNull (configOverride c)"
| "hmac_private e c getTradingBalances =
     getFromPrivateEndpoint e (rawAgent c) ''trading/balance'' JNull (configOverride c)"
| "hmac_private e c (getTradingFee symbolId) =
     getFromPrivateEndpoint e (rawAgent c) (''trading/fee/'' @ symbolId) JNull (configOverride c)"
| "hmac_private e c (getTrades params) =
     getFromPrivateEndpoint e (rawAgent c) ''history/trades'' params (configOverride c)"
| "hmac_private e c (getOrders params) =
     getFromPrivateEndpoint e (rawAgent c) ''history/order'' params (configOverride c)"
| "hmac_private e c (getTradesByOrderId orderId) =
     getFromPrivateEndpoint e (rawAgent c)
       (''history/order/'' @ number_to_string orderId @ ''/trades'') JNull (configOverride c)"
| "hmac_private e c getMainAccountBalance =
     getFromPrivateEndpoint e (rawAgent c) ''account/balance'' JNull (configOverride c)"
| "hmac_private e c (getAccountTransactions params) =
     getFromPrivateEndpoint e (rawAgent c) ''account/transactions'' params (configOverride c)"
| "hmac_private e c (getAccountTransactionById transactionId) =
     getFromPrivateEndpoint e (rawAgent c) (''account/transaction/'' @ transactionId) JNull
       (configOverride c)"
| "hmac_private e c (withdrawCrypto params) =
     postToPrivateEndpoint e (rawAgent c) ''account/crypto/withdraw'' params (configOverride c)"
| "hmac_private e c (commitCryptoWithdraw ident) =
     putToPrivateEndpoint e (rawAgent c) (''account/crypto/withdraw/'' @ ident) JNull
       (configOverride c)"
| "hmac_private e c (rollbackCryptoWithdraw ident) =
     deleteFromPrivateEndpoint e (rawAgent c) (''account/crypto/withdraw/'' @ ident) JNull
       (configOverride c)"
| "hmac_private e c (getCryptoDepositAddress currencyId) =
     getFromPrivateEndpoint e (rawAgent c) (''account/crypto/address/'' @ currencyId) JNull
       (configOverride c)"
| "hmac_private e c (createCryptoDepositAddress currencyId) =
     postToPrivateEndpoint e (rawAgent c) (''account/crypto/address/'' @ currencyId) JNull
       (configOverride c)"
| "hmac_private e c (transferToTrading params) =
     postToPrivateEndpoint e (rawAgent c) ''account/transfer'' params (configOverride c)"

section \<open>The signing helper (HMAC module)\<close>

text \<open>
  A number is a double. The quotient \<open>a / b\<close> of two doubles that hold the whole numbers
  \<open>a\<close> and \<open>b\<close> (below \<open>2^53\<close>, \<open>b\<close> not zero) is the exact quotient rounded to 53
  significant bits, a tie going to the even significand; its value is kept as a rational.
  \<open>floor_log2 a b\<close> is the binary exponent of the exact quotient.
\<close>

definition round_half_even :: "rat \<Rightarrow> int" where
  "round_half_even x =
     (let f = \<lfloor>x\<rfloor>; d = x - of_int f
      in if d < 1 / 2 then f else if 1 / 2 < d then f + 1 else if even f then f else f + 1)"

definition floor_log2 :: "nat \<Rightarrow> nat \<Rightarrow> int" where
  "floor_log2 a b =
     (let c = int (floorlog 2 a) - int (floorlog 2 b)
      in if (of_nat b :: rat) * 2 powi c \<le> of_nat a then c else c - 1)"

definition divide_double :: "nat \<Rightarrow> nat \<Rightarrow> rat" where
  "divide_double a b =
     (if a = 0 then 0
      else let e = floor_log2 a b - 52;
               m = round_half_even (of_nat a / of_nat b * 2 powi (- e))
           in of_int m * 2 powi e)"

text \<open>
  What \<open>signMessage\<close> takes from outside: the clock (\<open>Date.now()\<close>, whole milliseconds
  since the epoch, never beyond 8.64e15), the base64 decoder of \<open>Buffer\<close>, the keyed hash
  of \<open>crypto\<close> (\<open>createHmac('sha256', key).update(s).digest('base64')\<close>),
  \<open>JSON.stringify\<close>, \<open>String.prototype.toUpperCase\<close>, and the decimal rendering of a
  number in a template literal.
\<close>

record sign_env =
  date_now :: nat
  base64_decode :: "string \<Rightarrow> 8 word list"
  hmac_sha256_base64 :: "8 word list \<Rightarrow> string \<Rightarrow> string"
  json_stringify :: "jsval \<Rightarrow> string"
  to_upper_case :: "string \<Rightarrow> string"
  render_number :: "rat \<Rightarrow> string"

record ISignature =
  digest :: string
  timestamp :: rat

definition signMessage :: "sign_env \<Rightarrow> string \<Rightarrow> string \<Rightarrow> string \<Rightarrow> jsval \<Rightarrow> ISignature" where
  "signMessage w privateKey' path meth body =
     (let ts = divide_double (date_now w) 1000;
          key = base64_decode w privateKey';
          prehash =
            (if truthy body
             then render_number w ts @ to_upper_case w meth @ path @ json_stringify w body
             else render_number w ts @ to_upper_case w meth @ path);
          dg = hmac_sha256_base64 w key prehash
      in \<lparr> digest = dg, timestamp = ts \<rparr>)"

text \<open>
  The digest input in the words of the specification: the timestamp, the method in upper
  case, the path and, when a body is present, its JSON text.
\<close>

definition spec_digest_input :: "string \<Rightarrow> string \<Rightarrow> string \<Rightarrow> string option \<Rightarrow> string" where
  "spec_digest_input ts upper_method path body_json =
     ts @ upper_method @ path @ (case body_json of None \<Rightarrow> [] | Some j \<Rightarrow> j)"

section \<open>A query-string encoder\<close>

text \<open>
  A model of \<open>qs.stringify\<close> with its default options, for evaluating the client on
  concrete calls: \<open>key=value\<close> pairs joined by \<open>&\<close>, properties whose value is
  \<open>undefined\<close> left out, nested objects as \<open>a[b]=v\<close>, every character other than
  letters, digits and \<open>- _ . ~\<close> percent-encoded, and the empty string for anything that
  is not an object.
\<close>

definition hex_digit :: "nat \<Rightarrow> char" where
  "hex_digit d = (if d < 10 then char_of (48 + d) else char_of (55 + d))"

definition unreserved :: "char \<Rightarrow> bool" where
  "unreserved c =
     (let n = (of_char c :: nat)
      in (48 \<le> n \<and> n \<le> 57) \<or> (65 \<le> n \<and> n \<le> 90) \<or> (97 \<le> n \<and> n \<le> 122)
         \<or> n = 45 \<or> n = 46 \<or> n = 95 \<or> n = 126)"

definition encode_char :: "char \<Rightarrow> string" where
  "encode_char c =
     (if unreserved c then [c]
      else [CHR ''%'', hex_digit ((of_char c :: nat) div 16), hex_digit ((of_char c :: nat) mod 16)])"

definition uri_encode :: "string \<Rightarrow> string" where
  "uri_encode s = concat (map encode_char s)"

fun qs_pairs :: "string \<Rightarrow> jsval \<Rightarrow> string list" where
  "qs_pairs prefix JUndefined = []"
| "qs_pairs prefix JNull = [uri_encode prefix @ ''='']"
| "qs_pairs prefix (JBool b) = [uri_encode prefix @ ''='' @ (if b then ''true'' else ''false'')]"
| "qs_pairs prefix (JNum n) = [uri_encode prefix @ ''='' @ uri_encode (number_to_string n)]"
| "qs_pairs prefix (JStr s) = [uri_encode prefix @ ''='' @ uri_encode s]"
| "qs_pairs prefix (JObj kvs) =
     concat (map (\<lambda>kv. qs_pairs (prefix @ ''['' @ fst kv @ '']'') (snd kv)) kvs)"

fun join_amp :: "string list \<Rightarrow> string" where
  "join_amp [] = []"
| "join_amp [p] = p"
| "join_amp (p # ps) = p @ ''&'' @ join_amp ps"

fun qs_model :: "jsval \<Rightarrow> string" where
  "qs_model (JObj kvs) = join_amp (concat (map (\<lambda>kv. qs_pairs (fst kv) (snd kv)) kvs))"
| "qs_model v = []"

text \<open>The client with this encoder, over any transport.\<close>

definition with_transport :: "(AxiosRequestConfig \<Rightarrow> jsval + jsval) \<Rightarrow> env" where
  "with_transport ax = \<lparr> qs_stringify = qs_model, axios = ax \<rparr>"

section \<open>The documented public endpoints\<close>

text \<open>
  The endpoint templates of the interface description, per operation:
  \<open>public/symbol[/:id]\<close>, \<open>public/currency[/:id]\<close>, \<open>public/ticker[/:id]\<close>,
  \<open>public/trades/:id\<close>, \<open>public/orderbook/:id\<close>, \<open>public/candles/:id\<close>; and the
  parameters an operation passes on (\<open>null\<close> when it takes none).
\<close>

fun documented_path :: "public_op \<Rightarrow> string" where
  "documented_path getAvailableCurrencySymbols = ''public/symbol''"
| "documented_path (getSymbolInfo symbolId) = ''public/symbol/'' @ symbolId"
| "documented_path getAvailableCurrencies = ''public/currency''"
| "documented_path (getCurrencyInfo currencyId) = ''public/currency/'' @ currencyId"
| "documented_path getTicker = ''public/ticker''"
| "documented_path (getTickerInfo symbolId) = ''public/ticker/'' @ symbolId"
| "documented_path (getTradesInfo symbolId queryParams) = ''public/trades/'' @ symbolId"
| "documented_path (getOrderBook symbolId queryParams) = ''public/orderbook/'' @ symbolId"
| "documented_path (getCandle symbolId queryParams) = ''public/candles/'' @ symbolId"

fun query_of :: "public_op \<Rightarrow> jsval" where
  "query_of (getTradesInfo symbolId queryParams) = queryParams"
| "query_of (getOrderBook symbolId queryParams) = queryParams"
| "query_of (getCandle symbolId queryParams) = queryParams"
| "query_of op = JNull"

fun is_getCurrencyInfo :: "public_op \<Rightarrow> bool" where
  "is_getCurrencyInfo (getCurrencyInfo currencyId) = True"
| "is_getCurrencyInfo op = False"

section \<open>Sample inputs\<close>

text \<open>An error as the transport throws it on a timeout: it carries no \<open>response\<close>.\<close>

definition timeout_error :: jsval where
  "timeout_error =
     JObj [(''code'', JStr ''ECONNABORTED''), (''message'', JStr ''timeout of 3000ms exceeded'')]"

text \<open>An error for a reply that has a status but no body.\<close>

definition bodyless_error :: jsval where
  "bodyless_error = JObj [(''response'', JObj [(''status'', JNum 502)])]"

definition basic_keys :: IApiAuth where
  "basic_keys = \<lparr> publicKey = ''pk'', privateKey = ''sk'' \<rparr>"

definition new_keys :: IApiAuth where
  "new_keys = \<lparr> publicKey = ''pk2'', privateKey = ''sk2'' \<rparr>"

definition hmac_keys :: IApiAuthHmac where
  "hmac_keys = \<lparr> publicKey = ''pk'', privateKey = ''c2s='', passphrase = ''pw'' \<rparr>"

text \<open>
  A moment one millisecond past a full second. The timestamp depends on the clock alone;
  the library functions here are placeholders.
\<close>

definition clock_1001 :: sign_env where
  "clock_1001 =
     \<lparr> date_now = 1001, base64_decode = (\<lambda>s. []), hmac_sha256_base64 = (\<lambda>key s. s),
       json_stringify = (\<lambda>v. ''{}''), to_upper_case = (\<lambda>s. s), render_number = (\<lambda>x. ''1.001'') \<rparr>"

text \<open>The value \<open>this.auth\<close> holds: the credential object, or \<open>undefined\<close>.\<close>

fun auth_value :: "IApiAuth option \<Rightarrow> jsval" where
  "auth_value None = JUndefined"
| "auth_value (Some a) = JObj [(''publicKey'', JStr (publicKey a)), (''privateKey'', JStr (privateKey a))]"

section \<open>Properties\<close>

subsection \<open>Requests handed to the transport\<close>

lemma send_requests: "snd (send e agentConfig) = [agentConfig]"
  by (simp add: send_def split: sum.splits exn.splits)

lemma publicRequest_requests:
  "snd (publicRequest e endpoint q None)
     = [publicAgentConfig \<lparr> url := Some (''/'' @ endpoint @ ''?'' @ qs_stringify e q) \<rparr>]"
  by (simp add: publicRequest_def Let_def send_requests spread_def)

lemma getPublicEndpoint_requests:
  "snd (getPublicEndpoint e endpoint q None)
     = [publicAgentConfig \<lparr> url := Some (''/'' @ endpoint @ ''?'' @ qs_stringify e q) \<rparr>]"
  by (simp add: getPublicEndpoint_def Let_def send_requests spread_def)

subsection \<open>Private operations need keys\<close>

lemma privateRequest_without_keys:
  "privateRequest e (getRawAgent None) endpoint meth dataParams config
     = (Rejected keys_required, [])"
  by (simp add: privateRequest_def isUpgraded_def getRawAgent_def)

lemma hmac_endpoints_without_keys:
  "getFromPrivateEndpoint e (getRawAgent None) endpoint q config = (Rejected keys_required, [])"
  "deleteFromPrivateEndpoint e (getRawAgent None) endpoint q config = (Rejected keys_required, [])"
  "postToPrivateEndpoint e (getRawAgent None) endpoint q config = (Rejected keys_required, [])"
  "putToPrivateEndpoint e (getRawAgent None) endpoint q config = (Rejected keys_required, [])"
  "patchToPrivateEndpoint e (getRawAgent None) endpoint q config = (Rejected keys_required, [])"
  by (simp_all add: getFromPrivateEndpoint_def deleteFromPrivateEndpoint_def
      postToPrivateEndpoint_def putToPrivateEndpoint_def patchToPrivateEndpoint_def
      isUpgraded_def getRawAgent_def)

text \<open>
  C1. On a client built without credentials and never upgraded, every private operation,
  in the Basic Auth module and in the HMAC module alike, and whatever the transport and
  the config override are, rejects with the message
  \<open>api keys are required to access private endpoints\<close> and hands no request to the
  transport.
\<close>

theorem private_operation_without_keys:
  "basic_private e (getClient None config) op =
     (Rejected (JStr ''api keys are required to access private endpoints''), [])
   \<and> hmac_private e (getClient None config) op =
     (Rejected (JStr ''api keys are required to access private endpoints''), [])"
  by (cases op)
     (simp_all add: getClient_def privateRequest_without_keys hmac_endpoints_without_keys
        keys_required_def)

subsection \<open>What a failed request rejects with\<close>

lemma rejectionReason_error:
  "truthy x \<Longrightarrow>
   rejectionReason (JObj [(''response'', JObj [(''data'', JObj [(''error'', x)])])]) = Inr x"
  by (simp add: rejectionReason_def)

lemma rejectionReason_data:
  "map_of kvs ''error'' = None \<Longrightarrow>
   rejectionReason (JObj [(''response'', JObj [(''data'', JObj kvs)])]) = Inr (JObj kvs)"
  by (simp add: rejectionReason_def)

lemma rejectionReason_no_response:
  "get_prop err ''response'' = Inr JUndefined \<Longrightarrow> rejectionReason err = Inl TypeError"
  by (simp add: rejectionReason_def)

lemma map_of_size: "map_of kvs k = Some v \<Longrightarrow> size v < size (JObj kvs)"
  by (induction kvs) (auto split: if_splits)

lemma get_prop_size: "get_prop x k = Inr v \<Longrightarrow> truthy v \<Longrightarrow> size v < size x"
  by (cases x) (auto split: option.splits dest: map_of_size)

lemma get_prop_falsy: "get_prop r k = Inr d \<Longrightarrow> \<not> truthy r \<Longrightarrow> d = JUndefined"
  by (cases r) auto

text \<open>
  The last disjunct of the \<open>catch\<close> expression is dead: whatever the transport throws,
  the rejection value is never the thrown error itself.
\<close>

lemma rejectionReason_never_raw: "rejectionReason err \<noteq> Inr err"
proof
  assume a: "rejectionReason err = Inr err"
  show False
  proof (cases "get_prop err ''response''")
    case (Inl x)
    with a show False by (simp add: rejectionReason_def)
  next
    case r: (Inr r)
    show False
    proof (cases "get_prop r ''data''")
      case (Inl x)
      with a r show False by (simp add: rejectionReason_def)
    next
      case d: (Inr d)
      show False
      proof (cases "get_prop d ''error''")
        case (Inl x)
        with a r d show False by (simp add: rejectionReason_def)
      next
        case e: (Inr e)
        have sr: "truthy r \<Longrightarrow> size r < size err" using r by (rule get_prop_size)
        have sd: "truthy d \<Longrightarrow> size d < size r" using d by (rule get_prop_size)
        have se: "truthy e \<Longrightarrow> size e < size d" using e by (rule get_prop_size)
        have fr: "\<not> truthy r \<Longrightarrow> d = JUndefined" using d by (rule get_prop_falsy)
        have td: "truthy e \<Longrightarrow> truthy d"
          using get_prop_falsy [OF e] by (cases "truthy d") auto
        have tr: "truthy d \<Longrightarrow> truthy r"
          using get_prop_falsy [OF d] by (cases "truthy r") auto
        show False
        proof (cases "truthy e")
          case True
          with a r d e have "e = err" by (simp add: rejectionReason_def)
          moreover have "truthy d" using td True by simp
          moreover have "truthy r" using tr \<open>truthy d\<close> by simp
          ultimately show False using sr sd se True by auto
        next
          case ne: False
          show False
          proof (cases "truthy d")
            case True
            with a r d e ne have "d = err" by (simp add: rejectionReason_def)
            moreover have "truthy r" using tr True by simp
            ultimately show False using sr sd True by auto
          next
            case nd: False
            show False
            proof (cases "truthy r")
              case True
              with a r d e ne nd have "r = err" by (simp add: rejectionReason_def)
              then show False using sr True by auto
            next
              case False
              then have "d = JUndefined" by (rule fr)
              with e show False by simp
            qed
          qed
        qed
      qed
    qed
  qed
qed

text \<open>
  C2. The fallback to the raw error does not happen. For an error without a \<open>response\<close>
  (a timeout), reading \<open>err.response.data\<close> throws, so a public request and a private
  request both reject with a TypeError instead of the error the transport threw; an
  error whose \<open>response\<close> has no \<open>data\<close> fares the same.
\<close>

theorem timeout_error_rejection:
  "rejectionReason timeout_error = Inl TypeError
   \<and> rejectionReason bodyless_error = Inl TypeError
   \<and> fst (publicRequest (with_transport (\<lambda>req. Inl timeout_error)) ''public/ticker'' JNull None)
       = RejectedTypeError
   \<and> fst (privateRequest (with_transport (\<lambda>req. Inl timeout_error))
            (getRawAgent (Some basic_keys)) ''trading/balance'' ''GET'' JNull None)
       = RejectedTypeError"
  by (simp add: rejectionReason_def timeout_error_def bodyless_error_def publicRequest_def
      privateRequest_def send_def with_transport_def spread_def isUpgraded_def getRawAgent_def)

subsection \<open>Credentials of a private request (Basic Auth module)\<close>

text \<open>
  What \<open>privateRequest\<close> sends for an agent built with credentials \<open>a\<close>, without a config
  override: Basic Auth from \<open>a\<close>; for \<open>GET\<close> a \<open>null\<close> body and the parameters appended
  to the URL after a slash; for any other method the bare endpoint and the parameters as
  the body.
\<close>

lemma privateRequest_requests:
  "snd (privateRequest e (getRawAgent (Some a)) endpoint meth dataParams None)
     = [\<lparr> baseURL = Some rootUrl, headers = Some defaultHeaders, method = Some meth,
           timeout = Some 3000,
           url = Some (if meth = ''GET'' then ''/'' @ endpoint @ ''/'' @ qs_stringify e dataParams
                       else ''/'' @ endpoint),
           auth = Some \<lparr> username = publicKey a, password = privateKey a \<rparr>,
           data = Some (if meth = ''GET'' then JNull else dataParams) \<rparr>]"
  by (simp add: privateRequest_def getRawAgent_def isUpgraded_def Let_def send_requests
      spread_def privateAgentConfig_def defaultAgentConfig_def spread_obj_def)

text \<open>
  C3. A client built without credentials and then upgraded does not send its next private
  request with the new keys: \<open>privateRequest\<close> reads the factory's parameter, still
  \<open>undefined\<close>, so the call rejects with a TypeError and no request goes out. A client
  built with keys and then upgraded keeps sending the keys it was built with.
\<close>

theorem upgraded_client_private_request:
  "basic_private e (client_upgrade basic_keys (getClient None None)) getTradingBalances
     = (RejectedTypeError, [])
   \<and> map auth (snd (basic_private e (client_upgrade new_keys (getClient (Some basic_keys) None))
                      getTradingBalances))
     = [Some \<lparr> username = ''pk'', password = ''sk'' \<rparr>]"
  by (simp add: client_upgrade_def getClient_def getRawAgent_def upgrade_def privateRequest_def
      isUpgraded_def Let_def send_requests spread_def basic_keys_def)

subsection \<open>Credentials of a private request (HMAC module)\<close>

lemma hmac_private_no_credentials:
  "map (\<lambda>r. (auth r, headers r)) (snd (hmac_private e (getClient (Some a) None) op))
     = [(None, Some defaultHeaders)]"
  by (cases op)
     (simp_all add: getClient_def getRawAgent_def getFromPrivateEndpoint_def
        deleteFromPrivateEndpoint_def postToPrivateEndpoint_def putToPrivateEndpoint_def
        patchToPrivateEndpoint_def isUpgraded_def Let_def send_requests spread_def
        privateAgentConfig_def defaultAgentConfig_def spread_obj_def)

text \<open>
  C4. A private request of the HMAC module carries nothing derived from the stored
  credentials: for a client holding keys, \<open>getTradingBalances\<close> sends the default
  headers only and no \<open>auth\<close> field.
\<close>

theorem hmac_private_request_config:
  "snd (hmac_private (with_transport ax) (getClient (Some hmac_keys) None) getTradingBalances)
     = [\<lparr> baseURL = Some ''https://api.hitbtc.com/api/2'',
           headers = Some [(''Content-Type'', ''application/json''),
                           (''User-Agent'',
                            ''HitBTC API Client (hitbtc-cryptoexchange-api node package)'')],
           method = Some ''GET'', timeout = Some 3000, url = Some ''/trading/balance?'',
           auth = None, data = None \<rparr>]"
  by (simp add: getClient_def getRawAgent_def getFromPrivateEndpoint_def isUpgraded_def
      send_requests with_transport_def spread_def privateAgentConfig_def defaultAgentConfig_def
      defaultHeaders_def rootUrl_def spread_obj_def Let_def)

subsection \<open>Where the parameters of a private GET go\<close>

text \<open>
  C5. In the Basic Auth module \<open>listOpenOrders("ETHBTC")\<close> sends a GET with a \<open>null\<close>
  body to \<open>/order/symbol=ETHBTC\<close>: the parameters follow a slash, not a question mark.
  The same operation of the HMAC module sends \<open>/order?symbol=ETHBTC\<close>.
\<close>

theorem private_get_url:
  "snd (basic_private (with_transport ax) (getClient (Some basic_keys) None)
          (listOpenOrders (Some ''ETHBTC'')))
     = [\<lparr> baseURL = Some ''https://api.hitbtc.com/api/2'',
           headers = Some [(''Content-Type'', ''application/json''),
                           (''User-Agent'',
                            ''HitBTC API Client (hitbtc-cryptoexchange-api node package)'')],
           method = Some ''GET'', timeout = Some 3000, url = Some ''/order/symbol=ETHBTC'',
           auth = Some \<lparr> username = ''pk'', password = ''sk'' \<rparr>, data = Some JNull \<rparr>]
   \<and> map url (snd (hmac_private (with_transport ax) (getClient (Some hmac_keys) None)
                     (listOpenOrders (Some ''ETHBTC''))))
     = [Some ''/order?symbol=ETHBTC'']"
  by (simp add: getClient_def getRawAgent_def privateRequest_def getFromPrivateEndpoint_def
      isUpgraded_def basic_keys_def send_requests with_transport_def spread_def
      privateAgentConfig_def defaultAgentConfig_def defaultHeaders_def rootUrl_def spread_obj_def
      uri_encode_def encode_char_def unreserved_def Let_def)

subsection \<open>The signature\<close>

lemma round_half_even_error: "\<bar>of_int (round_half_even x) - x\<bar> \<le> 1 / 2"
  unfolding round_half_even_def Let_def
  by (auto simp: abs_if) linarith+

lemma floor_log2_bounds:
  assumes "0 < a" "0 < b"
  shows "2 powi (floor_log2 a b) \<le> (of_nat a / of_nat b :: rat)"
    and "(of_nat a / of_nat b :: rat) < 2 powi (floor_log2 a b + 1)"
proof -
  define la where "la = floorlog 2 a"
  define lb where "lb = floorlog 2 b"
  have a: "2 ^ (la - 1) \<le> a" "a < 2 ^ la" and b: "2 ^ (lb - 1) \<le> b" "b < 2 ^ lb"
    using floorlog_bounds [of a 2] floorlog_bounds [of b 2] assms by (auto simp: la_def lb_def)
  have la: "0 < la" and lb: "0 < lb"
    using a b assms by (auto intro: Nat.gr0I)
  have "(of_nat (2 ^ (la - 1)) :: rat) \<le> of_nat a" "(of_nat a :: rat) < of_nat (2 ^ la)"
    using a by (simp_all only: of_nat_le_iff of_nat_less_iff)
  then have ar: "(2::rat) ^ (la - 1) \<le> of_nat a" "(of_nat a :: rat) < 2 ^ la"
    by simp_all
  have "(of_nat (2 ^ (lb - 1)) :: rat) \<le> of_nat b" "(of_nat b :: rat) < of_nat (2 ^ lb)"
    using b by (simp_all only: of_nat_le_iff of_nat_less_iff)
  then have br: "(2::rat) ^ (lb - 1) \<le> of_nat b" "(of_nat b :: rat) < 2 ^ lb"
    by simp_all
  have bpos: "(0::rat) < of_nat b" using assms by simp
  define c where "c = int la - int lb"
  have lo: "(of_nat b :: rat) * 2 powi (c - 1) \<le> of_nat a"
  proof -
    have "(of_nat b :: rat) * 2 powi (c - 1) \<le> 2 ^ lb * 2 powi (c - 1)"
      using br by (intro mult_right_mono) auto
    also have "\<dots> = 2 powi (int lb + (c - 1))"
      by (simp add: power_int_add)
    also have "int lb + (c - 1) = int (la - 1)" using la by (simp add: c_def)
    also have "(2::rat) powi int (la - 1) = 2 ^ (la - 1)" by simp
    finally show ?thesis using ar by linarith
  qed
  have hi: "(of_nat a :: rat) < of_nat b * 2 powi (c + 1)"
  proof -
    have "(of_nat a :: rat) < 2 ^ la" by (rule ar)
    also have "(2::rat) ^ la = 2 powi (int (lb - 1) + (c + 1))"
      using lb by (simp add: c_def)
    also have "\<dots> = 2 ^ (lb - 1) * 2 powi (c + 1)"
      by (simp add: power_int_add)
    also have "\<dots> \<le> of_nat b * 2 powi (c + 1)"
      using br by (intro mult_right_mono) auto
    finally show ?thesis .
  qed
  show "2 powi (floor_log2 a b) \<le> (of_nat a / of_nat b :: rat)"
    using lo bpos
    by (auto simp: floor_log2_def Let_def la_def [symmetric] lb_def [symmetric] c_def [symmetric]
        pos_le_divide_eq mult.commute)
  show "(of_nat a / of_nat b :: rat) < 2 powi (floor_log2 a b + 1)"
    using hi bpos
    by (auto simp: floor_log2_def Let_def la_def [symmetric] lb_def [symmetric] c_def [symmetric]
        pos_divide_less_eq mult.commute not_le)
qed

text \<open>The quotient is off the exact one by at most half a unit in the last place.\<close>

lemma divide_double_error:
  assumes "0 < b"
  shows "\<bar>divide_double a b - of_nat a / of_nat b\<bar> \<le> of_nat a / of_nat b / 2 ^ 53"
proof (cases "a = 0")
  case True
  then show ?thesis by (simp add: divide_double_def)
next
  case False
  then have a: "0 < a" by simp
  define q :: rat where "q = of_nat a / of_nat b"
  define k where "k = floor_log2 a b"
  define x where "x = q * 2 powi (- (k - 52))"
  define m where "m = round_half_even x"
  have k: "2 powi k \<le> q" using floor_log2_bounds(1) [OF a assms] by (simp add: q_def k_def)
  have r: "divide_double a b = of_int m * 2 powi (k - 52)"
    using False by (simp add: divide_double_def Let_def m_def x_def q_def k_def)
  have "(2::rat) powi (- (k - 52)) * 2 powi (k - 52) = 2 powi (- (k - 52) + (k - 52))"
    by (subst power_int_add) simp_all
  then have "(2::rat) powi (- (k - 52)) * 2 powi (k - 52) = 1" by simp
  then have xq: "x * 2 powi (k - 52) = q"
    by (simp add: x_def mult.assoc)
  have "divide_double a b - q = (of_int m - x) * 2 powi (k - 52)"
    by (simp add: r xq left_diff_distrib)
  then have "\<bar>divide_double a b - q\<bar> = \<bar>of_int m - x\<bar> * 2 powi (k - 52)"
    by (simp add: abs_mult)
  also have "\<dots> \<le> 1 / 2 * 2 powi (k - 52)"
    using round_half_even_error [of x] by (intro mult_right_mono) (auto simp: m_def)
  also have "\<dots> = 2 powi k / 2 ^ 53"
    by (simp add: power_int_diff)
  also have "\<dots> \<le> q / 2 ^ 53"
    using k by (simp add: divide_right_mono)
  finally show ?thesis by (simp add: q_def)
qed

lemma divide_double_1000_fraction:
  assumes "n mod 1000 \<noteq> 0" "n < 2 ^ 53"
  shows "divide_double n 1000 \<notin> \<int>"
proof
  assume "divide_double n 1000 \<in> \<int>"
  then obtain z :: int where z: "divide_double n 1000 = of_int z" by (auto elim: Ints_cases)
  have "\<bar>of_int z - of_nat n / 1000\<bar> \<le> (of_nat n / 1000 / 2 ^ 53 :: rat)"
    using divide_double_error [of 1000 n] z by simp
  moreover have "(of_nat n :: rat) < of_nat (2 ^ 53)"
    using assms(2) by (simp only: of_nat_less_iff)
  then have "(of_nat n :: rat) < 2 ^ 53" by simp
  ultimately have "\<bar>of_int z - of_nat n / 1000\<bar> < (1 / 1000 :: rat)"
    by (simp add: field_simps)
  then have "\<bar>of_int (1000 * z - int n)\<bar> < (1 :: rat)"
    by (simp add: field_simps abs_if split: if_splits)
  then have "(of_int \<bar>1000 * z - int n\<bar> :: rat) < 1"
    by (simp only: of_int_abs)
  then have "\<bar>1000 * z - int n\<bar> < 1"
    by (simp only: of_int_less_1_iff)
  then have "int n = 1000 * z" by simp
  then have "int n mod 1000 = 0" by simp
  then have "int (n mod 1000) = 0" by (simp add: zmod_int)
  then have "n mod 1000 = 0" by simp
  with assms(1) show False by simp
qed

text \<open>At 1001 ms the division gives the double next to 1.001.\<close>

lemma floorlog_1001: "floorlog 2 1001 = 10"
  by (simp add: compute_floorlog)

lemma floorlog_1000: "floorlog 2 1000 = 10"
  by (simp add: compute_floorlog)

lemma floor_log2_1001: "floor_log2 1001 1000 = 0"
  by (simp add: floor_log2_def floorlog_1001 floorlog_1000)

lemma floor_1001: "\<lfloor>(563512903374733312::rat) / 125\<rfloor> = 4508103226997866"
  by (rule floor_unique) simp_all

lemma round_half_even_1001: "round_half_even (563512903374733312 / 125) = 4508103226997866"
  by (simp add: round_half_even_def Let_def floor_1001)

lemma divide_double_1001: "divide_double 1001 1000 = 2254051613498933 / 2 ^ 51"
  by (simp add: divide_double_def floor_log2_1001 round_half_even_1001 Let_def power_int_minus)

text \<open>
  C6. \<open>signMessage\<close> returns a timestamp and a digest. The timestamp is the clock's
  milliseconds divided by 1000 as a double: for every clock value a double holds exactly,
  it is the seconds since the epoch to within the rounding of one division, and it is
  never cut to whole seconds (off a full second it is no whole number). The digest is
  the base64 HMAC-SHA256, keyed by the base64-decoded private key, of the timestamp
  followed by the method in upper case, the path and, when a body is present (an object,
  as opposed to \<open>undefined\<close> or \<open>null\<close>), the JSON text of the body.
\<close>

theorem signMessage_digest_timestamp:
  "(date_now w < 2 ^ 53 \<longrightarrow>
      \<bar>timestamp (signMessage w k path meth body) * 1000 - of_nat (date_now w)\<bar>
        \<le> of_nat (date_now w) / 2 ^ 53
      \<and> (date_now w mod 1000 \<noteq> 0 \<longrightarrow> timestamp (signMessage w k path meth body) \<notin> \<int>))
   \<and> digest (signMessage w k path meth body) =
       hmac_sha256_base64 w (base64_decode w k)
         (spec_digest_input (render_number w (timestamp (signMessage w k path meth body)))
            (to_upper_case w meth) path
            (if truthy body then Some (json_stringify w body) else None))"
proof -
  have ts: "timestamp (signMessage w k path meth body) = divide_double (date_now w) 1000"
    by (simp add: signMessage_def Let_def)
  have "\<bar>divide_double (date_now w) 1000 - of_nat (date_now w) / 1000\<bar>
          \<le> of_nat (date_now w) / 1000 / 2 ^ 53"
    using divide_double_error [of 1000 "date_now w"] by simp
  then have near: "\<bar>divide_double (date_now w) 1000 * 1000 - of_nat (date_now w)\<bar>
          \<le> of_nat (date_now w) / 2 ^ 53"
    by (simp add: field_simps abs_if split: if_splits)
  have frac: "date_now w < 2 ^ 53 \<longrightarrow>
      \<bar>divide_double (date_now w) 1000 * 1000 - of_nat (date_now w)\<bar>
        \<le> of_nat (date_now w) / 2 ^ 53
      \<and> (date_now w mod 1000 \<noteq> 0 \<longrightarrow> divide_double (date_now w) 1000 \<notin> \<int>)"
    using near divide_double_1000_fraction [of "date_now w"] by blast
  have dig: "digest (signMessage w k path meth body) =
       hmac_sha256_base64 w (base64_decode w k)
         (spec_digest_input (render_number w (divide_double (date_now w) 1000))
            (to_upper_case w meth) path
            (if truthy body then Some (json_stringify w body) else None))"
    by (simp add: signMessage_def Let_def spec_digest_input_def)
  show ?thesis unfolding ts by (intro conjI frac dig)
qed

theorem signMessage_digest_timestamp_witness:
  "(1001::nat) < 2 ^ 53 \<and> (1001::nat) mod 1000 \<noteq> 0
   \<and> timestamp (signMessage clock_1001 ''c2s='' ''/order'' ''post'' JUndefined)
       = 2254051613498933 / 2 ^ 51
   \<and> \<bar>timestamp (signMessage clock_1001 ''c2s='' ''/order'' ''post'' JUndefined) * 1000 - 1001\<bar>
       \<le> 1001 / 2 ^ 53
   \<and> timestamp (signMessage clock_1001 ''c2s='' ''/order'' ''post'' JUndefined) \<notin> \<int>"
proof -
  have c: "date_now clock_1001 = 1001" by (simp add: clock_1001_def)
  have v: "timestamp (signMessage clock_1001 ''c2s='' ''/order'' ''post'' JUndefined)
             = 2254051613498933 / 2 ^ 51"
    by (simp only: signMessage_def Let_def c divide_double_1001 ISignature.simps)
  have h: "(1001::nat) < 2 ^ 53" "(1001::nat) mod 1000 \<noteq> 0" by simp_all
  show ?thesis
    using signMessage_digest_timestamp
      [where w = clock_1001 and k = "''c2s=''" and path = "''/order''" and meth = "''post''"
         and body = JUndefined] h v
    unfolding c by (simp only: of_nat_numeral) blast
qed

subsection \<open>Public operations\<close>

lemma public_operation_request:
  "\<not> is_getCurrencyInfo op \<Longrightarrow>
   snd (basic_public e (getClient a None) op)
     = [publicAgentConfig
          \<lparr> url := Some (''/'' @ documented_path op @ ''?'' @ qs_stringify e (query_of op)) \<rparr>]
   \<and> snd (hmac_public e (getClient b None) op)
     = [publicAgentConfig
          \<lparr> url := Some (''/'' @ documented_path op @ ''?'' @ qs_stringify e (query_of op)) \<rparr>]"
  by (cases op) (simp_all add: getClient_def publicRequest_requests getPublicEndpoint_requests)

lemma qs_model_limit: "qs_model (JObj [(''limit'', JNum 5)]) = ''limit=5''"
  by code_simp

lemma getOrderBook_example:
  "map (\<lambda>r. (method r, url r))
     (snd (basic_public (with_transport ax) (getClient None None)
        (getOrderBook ''ETHBTC'' (JObj [(''limit'', JNum 5)]))))
   = [(Some ''GET'', Some ''/public/orderbook/ETHBTC?limit=5'')]"
  by (simp add: getClient_def publicRequest_requests publicAgentConfig_def defaultAgentConfig_def
      with_transport_def qs_model_limit del: qs_model.simps)

text \<open>
  C7. \<open>getCurrencyInfo("BTC")\<close> does not request the documented currency endpoint
  \<open>public/currency/BTC\<close>: in both modules it requests \<open>/public/symbol/BTC?\<close>, the
  endpoint of \<open>getSymbolInfo\<close>.
\<close>

theorem getCurrencyInfo_request:
  "map url (snd (basic_public (with_transport ax) (getClient None None) (getCurrencyInfo ''BTC'')))
     = [Some ''/public/symbol/BTC?'']
   \<and> map url (snd (hmac_public (with_transport ax) (getClient None None) (getCurrencyInfo ''BTC'')))
     = [Some ''/public/symbol/BTC?'']
   \<and> documented_path (getCurrencyInfo ''BTC'') = ''public/currency/BTC''"
  by (simp add: getClient_def publicRequest_requests getPublicEndpoint_requests with_transport_def)

subsection \<open>Upgrading\<close>

lemma isUpgraded_in_condition:
  "present (client_isUpgraded (client_upgrade a c))
   \<and> \<not> present (client_isUpgraded (getClient None config))"
  by (simp add: client_isUpgraded_def client_upgrade_def isUpgraded_def upgrade_def getClient_def
      getRawAgent_def)

text \<open>
  C8. \<open>isUpgraded()\<close>, declared and documented to return a boolean, returns
  \<open>this.auth\<close>: after \<open>upgrade\<close> the credential object, which is not \<open>true\<close>, and on a
  fresh client without credentials \<open>undefined\<close>, which is not \<open>false\<close>.
\<close>

theorem isUpgraded_returns_credentials:
  "auth_value (client_isUpgraded (client_upgrade basic_keys (getClient None None)))
     = JObj [(''publicKey'', JStr ''pk''), (''privateKey'', JStr ''sk'')]
   \<and> auth_value (client_isUpgraded (client_upgrade basic_keys (getClient None None)))
       \<noteq> JBool True
   \<and> auth_value (client_isUpgraded (getClient None None)) = JUndefined
   \<and> auth_value (client_isUpgraded (getClient None None)) \<noteq> JBool False"
  by (simp add: client_isUpgraded_def client_upgrade_def isUpgraded_def upgrade_def getClient_def
      getRawAgent_def basic_keys_def)

subsection \<open>Deposit addresses\<close>

text \<open>
  C10. In the Basic Auth module \<open>createCryptoDepositAddress\<close> and
  \<open>getCryptoDepositAddress\<close> are the same call on every client and currency; with keys
  and no config override it is one GET for \<open>account/crypto/address/{currencyId}\<close> with a
  \<open>null\<close> body. In the HMAC module creating is a POST and getting is a GET.
\<close>

theorem deposit_address_create_get:
  "basic_private e c (createCryptoDepositAddress currencyId)
     = basic_private e c (getCryptoDepositAddress currencyId)
   \<and> snd (basic_private e (getClient (Some a) None) (createCryptoDepositAddress currencyId))
     = [\<lparr> baseURL = Some rootUrl, headers = Some defaultHeaders, method = Some ''GET'',
           timeout = Some 3000,
           url = Some (''/account/crypto/address/'' @ currencyId @ ''/'' @ qs_stringify e JNull),
           auth = Some \<lparr> username = publicKey a, password = privateKey a \<rparr>,
           data = Some JNull \<rparr>]
   \<and> map method (snd (hmac_private e (getClient (Some b) None)
                        (createCryptoDepositAddress currencyId)))
     = [Some ''POST'']
   \<and> map method (snd (hmac_private e (getClient (Some b) None)
                        (getCryptoDepositAddress currencyId)))
     = [Some ''GET'']"
  by (simp add: getClient_def getRawAgent_def privateRequest_def postToPrivateEndpoint_def
      getFromPrivateEndpoint_def isUpgraded_def Let_def send_requests spread_def
      privateAgentConfig_def defaultAgentConfig_def spread_obj_def defaultHeaders_def)

end
